theory Spec2Isabelle
  imports Main
begin

section \<open>JavaScript values, documents and sink records\<close>

text \<open>
  A metadata record is a \<^verbatim>\<open>Record<string, any>\<close>. Its values are JavaScript values; the
  adapters never compute with a number, so the number type is a parameter \<open>'n\<close>: a number
  that reaches the output is the one that came in.
\<close>

datatype 'n jsval =
    JUndefined
  | JNull
  | JBool bool
  | JNum 'n
  | JStr string
  | JArr "'n jsval list"
  | JObj "(string \<times> 'n jsval) list"

type_synonym 'n UpstashMetadata = "string \<rightharpoonup> 'n jsval"

text \<open>
  A document as the adapter reads and returns it: the fields \<^verbatim>\<open>pageContent\<close> and
  \<^verbatim>\<open>metadata\<close> of a \<^verbatim>\<open>DocumentInterface\<close>. \<^verbatim>\<open>pageContent\<close> is declared a string, but a
  document built from what a sink stored holds whatever its constructor made of an
  \<^verbatim>\<open>any\<close>, so the field is a JavaScript value.
\<close>

record 'n Document =
  pageContent :: "'n jsval"
  doc_metadata :: "'n UpstashMetadata"

text \<open>The element of \<^verbatim>\<open>upstashVectors\<close>: \<^verbatim>\<open>{ id, vector, metadata }\<close>. The id is
  \<^verbatim>\<open>documentIds[index]\<close>, which is \<^verbatim>\<open>undefined\<close> (\<open>None\<close>) past the end of the ids.\<close>

record 'n UpstashVector =
  vec_id :: "string option"
  vec_vector :: "'n list"
  vec_metadata :: "'n UpstashMetadata"

text \<open>One hit of the sink's answer to a query; \<^verbatim>\<open>res.metadata\<close> may be absent.\<close>

record 'n QueryResult =
  res_id :: string
  res_score :: 'n
  res_metadata :: "'n UpstashMetadata option"

text \<open>The argument of \<^verbatim>\<open>this.index.query\<close> built by \<^verbatim>\<open>_runUpstashQuery\<close>.\<close>

record 'n QueryRequest =
  req_vector :: "'n list"
  req_topK :: int
  req_includeMetadata :: bool
  req_filter :: "string option"
  req_includeVectors :: "bool option"

text \<open>\<^verbatim>\<open>ids: string | string[]\<close> of \<^verbatim>\<open>UpstashDeleteParams\<close>.\<close>

datatype ids_param = IdString string | IdArray "string list"

record UpstashDeleteParams =
  del_ids :: "ids_param option"
  del_deleteAll :: "bool option"

text \<open>The calls the adapter makes on \<^verbatim>\<open>this.index\<close>, in the order it issues them.\<close>

datatype 'n request =
    Upsert "'n UpstashVector list"
  | Delete ids_param
  | Reset
  | Query "'n QueryRequest"

text \<open>
  What an Upstash operation can end with: a \<^verbatim>\<open>TypeError\<close> thrown by the adapter's own
  code (reading a property of \<^verbatim>\<open>undefined\<close>), or the rejection \<open>e\<close> of a call on the
  sink. The class raises nothing else.
\<close>

datatype 'e error = TypeError | UpstreamFailure 'e

section \<open>The metadata codec of the Upstash store\<close>

text \<open>
  \<^verbatim>\<open>const metadata = { _pageContentLC: documents[index].pageContent,
                     ...documents[index].metadata };\<close>
  In an object literal a later property replaces an earlier one of the same name, and the
  spread comes second: it is \<open>++\<close> with the caller's metadata on the right.
\<close>

definition upstashMetadata :: "'n Document \<Rightarrow> 'n UpstashMetadata" where
  "upstashMetadata d = [''_pageContentLC'' \<mapsto> pageContent d] ++ doc_metadata d"

text \<open>
  \<^verbatim>\<open>const { _pageContentLC, ...metadata } = (res.metadata ?? {});
  new Document({ metadata, pageContent: _pageContentLC })\<close>
  A key that is missing destructures to \<^verbatim>\<open>undefined\<close>. The class \<^verbatim>\<open>Document\<close> is imported
  from \<^verbatim>\<open>@langchain/core/documents\<close> and is not part of the sources, so its constructor is
  the parameter \<open>newDocument\<close>: \<open>newDocument metadata pageContent\<close> is the document that
  \<^verbatim>\<open>new Document({ metadata, pageContent })\<close> returns, or the error it throws. Nothing is
  assumed of it here; what a theorem needs of it is a hypothesis of that theorem.
\<close>

definition toDocument ::
  "('n UpstashMetadata \<Rightarrow> 'n jsval \<Rightarrow> 'e error + 'n Document) \<Rightarrow>
   'n UpstashMetadata option \<Rightarrow> 'e error + 'n Document" where
  "toDocument newDocument raw =
     (let m = (case raw of None \<Rightarrow> Map.empty | Some r \<Rightarrow> r);
          pageContentLC = (case m ''_pageContentLC'' of None \<Rightarrow> JUndefined | Some v \<Rightarrow> v);
          metadata = m(''_pageContentLC'' := None)
      in newDocument metadata pageContentLC)"

text \<open>The callback of \<^verbatim>\<open>results.map\<close> in \<^verbatim>\<open>similaritySearchVectorWithScore\<close>.\<close>

definition searchResult ::
  "('n UpstashMetadata \<Rightarrow> 'n jsval \<Rightarrow> 'e error + 'n Document) \<Rightarrow>
   'n QueryResult \<Rightarrow> 'e error + 'n Document \<times> 'n" where
  "searchResult newDocument res =
     (case toDocument newDocument (res_metadata res) of
        Inl err \<Rightarrow> Inl err
      | Inr doc \<Rightarrow> Inr (doc, res_score res))"

section \<open>The Upstash vector store\<close>

definition CONCURRENT_UPSERT_LIMIT :: nat where
  "CONCURRENT_UPSERT_LIMIT = 1000"

text \<open>\<^verbatim>\<open>xs[index]\<close> on an array: \<^verbatim>\<open>undefined\<close> past the end.\<close>

definition at_index :: "'a list \<Rightarrow> nat \<Rightarrow> 'a option" where
  "at_index xs index = (if index < length xs then Some (xs ! index) else None)"

text \<open>
  The callback of \<^verbatim>\<open>vectors.map((vector, index) => ...)\<close> in \<^verbatim>\<open>addVectors\<close>. Reading
  \<^verbatim>\<open>documents[index].pageContent\<close> where \<^verbatim>\<open>documents[index]\<close> is \<^verbatim>\<open>undefined\<close> throws a
  \<^verbatim>\<open>TypeError\<close>.
\<close>

definition upstashVector ::
  "'n Document list \<Rightarrow> string list \<Rightarrow> 'n list \<Rightarrow> nat \<Rightarrow> 'e error + 'n UpstashVector" where
  "upstashVector documents documentIds vector index =
     (case at_index documents index of
        None \<Rightarrow> Inl TypeError
      | Some doc \<Rightarrow>
          Inr \<lparr>vec_id = at_index documentIds index,
               vec_vector = vector,
               vec_metadata = upstashMetadata doc\<rparr>)"

text \<open>\<^verbatim>\<open>Array.prototype.map\<close> with a callback that may throw: the first throw ends it.\<close>

fun mapIndexed :: "('a \<Rightarrow> nat \<Rightarrow> 'x + 'b) \<Rightarrow> nat \<Rightarrow> 'a list \<Rightarrow> 'x + 'b list" where
  "mapIndexed f index [] = Inr []"
| "mapIndexed f index (x # xs) =
     (case f x index of
        Inl err \<Rightarrow> Inl err
      | Inr y \<Rightarrow>
          (case mapIndexed f (Suc index) xs of
             Inl err \<Rightarrow> Inl err
           | Inr ys \<Rightarrow> Inr (y # ys)))"

text \<open>
  Modelled from the spec: \<^verbatim>\<open>chunkArray\<close> is imported from \<^verbatim>\<open>@langchain/core/utils/chunk_array\<close>
  and is not part of the sources. The specification has it partition the input into
  contiguous chunks of at most \<open>chunkSize\<close> elements, in the original order within each
  chunk and across chunks; no input gives no chunk. A chunk size of zero, about which the
  specification is silent, is given no chunk.
\<close>

function chunkArray :: "'a list \<Rightarrow> nat \<Rightarrow> 'a list list" where
  "chunkArray arr chunkSize =
     (if chunkSize = 0 \<or> arr = [] then []
      else take chunkSize arr # chunkArray (drop chunkSize arr) chunkSize)"
  by pat_completeness auto
termination
  by (relation "measure (\<lambda>(arr, chunkSize). length arr)") auto

declare chunkArray.simps [simp del]

text \<open>
  \<^verbatim>\<open>await Promise.all(batchRequests)\<close>, on the outcomes of the submissions (\<open>None\<close>: the
  promise resolved; \<open>Some e\<close>: it rejected with \<open>e\<close>). It resolves when all do and rejects
  when one does. Of several rejections JavaScript reports the one that settles first; the
  model reports the first in dispatch order.
\<close>

fun Promise_all :: "'e option list \<Rightarrow> 'e error + unit" where
  "Promise_all [] = Inr ()"
| "Promise_all (None # ps) = Promise_all ps"
| "Promise_all (Some e # ps) = Inl (UpstreamFailure e)"

text \<open>
  \<^verbatim>\<open>options?.ids ?? Array.from({ length: vectors.length }, () => uuid.v4())\<close>.
  \<open>uuid_v4 i\<close> is the identifier that the \<open>i\<close>-th call of \<^verbatim>\<open>uuid.v4()\<close> returns.
\<close>

definition documentIds :: "(nat \<Rightarrow> string) \<Rightarrow> 'n list list \<Rightarrow> string list option \<Rightarrow> string list" where
  "documentIds uuid_v4 vectors ids =
     (case ids of Some xs \<Rightarrow> xs | None \<Rightarrow> map uuid_v4 [0..<length vectors])"

text \<open>
  \<^verbatim>\<open>addVectors\<close>, with the chunk size as a parameter. \<open>upsert i\<close> is how the \<open>i\<close>-th
  submission \<^verbatim>\<open>this.caller.call(async () => this.index.upsert(chunk))\<close> of the call
  settles, in dispatch order. Every chunk is submitted before any outcome is awaited. The
  result comes with the calls issued on the index.
\<close>

definition addVectorsWith ::
  "nat \<Rightarrow> (nat \<Rightarrow> string) \<Rightarrow> (nat \<Rightarrow> 'e option) \<Rightarrow>
   'n list list \<Rightarrow> 'n Document list \<Rightarrow> string list option \<Rightarrow>
   ('e error + string list) \<times> 'n request list" where
  "addVectorsWith limit uuid_v4 upsert vectors documents ids =
     (case mapIndexed (upstashVector documents (documentIds uuid_v4 vectors ids)) 0 vectors of
        Inl err \<Rightarrow> (Inl err, [])
      | Inr upstashVectors \<Rightarrow>
          (let vectorChunks = chunkArray upstashVectors limit;
               batchRequests = map upsert [0..<length vectorChunks]
           in (case Promise_all batchRequests of
                 Inl err \<Rightarrow> Inl err
               | Inr _ \<Rightarrow> Inr (documentIds uuid_v4 vectors ids),
               map Upsert vectorChunks)))"

definition addVectors ::
  "(nat \<Rightarrow> string) \<Rightarrow> (nat \<Rightarrow> 'e option) \<Rightarrow>
   'n list list \<Rightarrow> 'n Document list \<Rightarrow> string list option \<Rightarrow>
   ('e error + string list) \<times> 'n request list" where
  "addVectors = addVectorsWith CONCURRENT_UPSERT_LIMIT"

text \<open>Truthiness of \<^verbatim>\<open>params.ids\<close>: an array is truthy, a string is unless it is empty.\<close>

fun truthy_ids :: "ids_param option \<Rightarrow> bool" where
  "truthy_ids None = False"
| "truthy_ids (Some (IdString s)) = (s \<noteq> [])"
| "truthy_ids (Some (IdArray xs)) = True"

definition settle :: "'e option \<Rightarrow> 'e error + unit" where
  "settle outcome = (case outcome of None \<Rightarrow> Inr () | Some e \<Rightarrow> Inl (UpstreamFailure e))"

text \<open>
  \<^verbatim>\<open>delete\<close>. \<open>reset\<close> is how \<^verbatim>\<open>this.index.reset()\<close> settles and \<open>delete_ids i\<close> how
  \<^verbatim>\<open>this.index.delete(i)\<close> does.
\<close>

definition delete ::
  "'e option \<Rightarrow> (ids_param \<Rightarrow> 'e option) \<Rightarrow> UpstashDeleteParams \<Rightarrow>
   ('e error + unit) \<times> 'n request list" where
  "delete reset delete_ids params =
     (if del_deleteAll params = Some True then (settle reset, [Reset])
      else if truthy_ids (del_ids params) then
        (case del_ids params of
           Some i \<Rightarrow> (settle (delete_ids i), [Delete i])
         | None \<Rightarrow> (Inr (), []))
      else (Inr (), []))"

text \<open>
  \<^verbatim>\<open>_runUpstashQuery\<close>. \<open>query req\<close> is the sink's answer to the request. \<open>options\<close> is
  the optional \<^verbatim>\<open>{ includeVectors }\<close>.
\<close>

definition runUpstashQuery ::
  "('n QueryRequest \<Rightarrow> 'e + 'n QueryResult list) \<Rightarrow> 'n list \<Rightarrow> int \<Rightarrow> string option \<Rightarrow>
   bool option \<Rightarrow> ('e error + 'n QueryResult list) \<times> 'n request list" where
  "runUpstashQuery query q k filter_expr options =
     (let req = \<lparr>req_vector = q, req_topK = k, req_includeMetadata = True,
                 req_filter = filter_expr, req_includeVectors = options\<rparr>
      in (case query req of
            Inl e \<Rightarrow> Inl (UpstreamFailure e)
          | Inr queryResult \<Rightarrow> Inr queryResult,
          [Query req]))"

text \<open>
  \<^verbatim>\<open>similaritySearchVectorWithScore\<close>. The callback of \<^verbatim>\<open>results.map\<close> does not look at
  the index; a throw of the constructor ends the map and the call.
\<close>

definition similaritySearchVectorWithScore ::
  "('n UpstashMetadata \<Rightarrow> 'n jsval \<Rightarrow> 'e error + 'n Document) \<Rightarrow>
   ('n QueryRequest \<Rightarrow> 'e + 'n QueryResult list) \<Rightarrow> 'n list \<Rightarrow> int \<Rightarrow> string option \<Rightarrow>
   ('e error + ('n Document \<times> 'n) list) \<times> 'n request list" where
  "similaritySearchVectorWithScore newDocument query q k filter_expr =
     (case runUpstashQuery query q k filter_expr None of
        (Inl err, calls) \<Rightarrow> (Inl err, calls)
      | (Inr results, calls) \<Rightarrow>
          (mapIndexed (\<lambda>res index. searchResult newDocument res) 0 results, calls))"

section \<open>The Redis byte store\<close>

text \<open>
  A JavaScript string is a sequence of UTF-16 code units, and concatenation, \<^verbatim>\<open>length\<close>
  and \<^verbatim>\<open>slice\<close> count code units. A \<open>char\<close> stands for one code unit here; nothing
  below depends on its width.
\<close>

record RedisByteStore =
  ttl :: "int option"
  namespace :: "string option"
  yieldKeysScanBatchSize :: int

text \<open>\<^verbatim>\<open>_getPrefixedKey\<close>. In \<^verbatim>\<open>if (this.namespace)\<close> a namespace that is absent or empty
  is falsy.\<close>

definition getPrefixedKey :: "RedisByteStore \<Rightarrow> string \<Rightarrow> string" where
  "getPrefixedKey this key =
     (case namespace this of
        None \<Rightarrow> key
      | Some ns \<Rightarrow>
          if ns \<noteq> [] then (let delimiter = ''/'' in ns @ delimiter @ key) else key)"

text \<open>\<^verbatim>\<open>_getDeprefixedKey\<close>; \<^verbatim>\<open>key.slice(n)\<close> with \<open>n \<ge> 0\<close> drops the first \<open>n\<close> code
  units, all of them when the key is shorter.\<close>

definition getDeprefixedKey :: "RedisByteStore \<Rightarrow> string \<Rightarrow> string" where
  "getDeprefixedKey this key =
     (case namespace this of
        None \<Rightarrow> key
      | Some ns \<Rightarrow>
          if ns \<noteq> [] then (let delimiter = ''/'' in drop (length ns + length delimiter) key)
          else key)"

section \<open>The Postgres chat message history\<close>

record ('p, 'c) PostgresChatMessageHistoryInput =
  inp_tableName :: "string option"
  inp_sessionId :: string
  inp_poolConfig :: "'c option"
  inp_pool :: "'p option"
  inp_escapeTableName :: "bool option"

record 'p PostgresChatMessageHistory =
  pool :: 'p
  tableName :: string
  sessionId :: string
  initialized :: bool

datatype js_error = Error string

text \<open>
  The constructor. \<open>newPool\<close> is \<^verbatim>\<open>new pg.Pool(poolConfig)\<close> and \<open>escapeIdentifier\<close> is
  \<^verbatim>\<open>pg.escapeIdentifier\<close>, both of the \<^verbatim>\<open>pg\<close> library. \<^verbatim>\<open>tableName || this.tableName\<close>
  takes the field's initial value for a name that is absent or empty.
\<close>

definition PostgresChatMessageHistory_constructor ::
  "('c option \<Rightarrow> 'p) \<Rightarrow> (string \<Rightarrow> string) \<Rightarrow> ('p, 'c) PostgresChatMessageHistoryInput \<Rightarrow>
   js_error + 'p PostgresChatMessageHistory" where
  "PostgresChatMessageHistory_constructor newPool escapeIdentifier args =
     (if inp_pool args = None \<and> inp_poolConfig args = None then
        Inl (Error ''PostgresChatMessageHistory requires either a pool instance or pool config'')
      else
        (let this_pool = (case inp_pool args of
                            Some p \<Rightarrow> p
                          | None \<Rightarrow> newPool (inp_poolConfig args));
             tableName0 = (case inp_tableName args of
                             None \<Rightarrow> ''langchain_chat_histories''
                           | Some t \<Rightarrow> if t \<noteq> [] then t else ''langchain_chat_histories'');
             this_tableName = (if inp_escapeTableName args = Some True
                               then escapeIdentifier tableName0 else tableName0)
         in Inr \<lparr>pool = this_pool, tableName = this_tableName,
                 sessionId = inp_sessionId args, initialized = False\<rparr>))"

section \<open>Properties of the codec\<close>

lemma upstashMetadata_reserved_absent:
  "doc_metadata d ''_pageContentLC'' = None \<Longrightarrow>
     upstashMetadata d ''_pageContentLC'' = Some (pageContent d)"
  by (simp add: upstashMetadata_def map_add_def)

lemma upstashMetadata_reserved_present:
  "doc_metadata d ''_pageContentLC'' = Some v \<Longrightarrow>
     upstashMetadata d ''_pageContentLC'' = Some v"
  by (simp add: upstashMetadata_def map_add_def)

lemma upstashMetadata_other:
  "k \<noteq> ''_pageContentLC'' \<Longrightarrow> upstashMetadata d k = doc_metadata d k"
  by (simp add: upstashMetadata_def map_add_def split: option.splits)

lemma toDocument_Some:
  "toDocument newDocument (Some m) =
     newDocument (m(''_pageContentLC'' := None))
       (case m ''_pageContentLC'' of None \<Rightarrow> JUndefined | Some v \<Rightarrow> v)"
  by (simp add: toDocument_def)

lemma toDocument_None:
  "toDocument newDocument None = newDocument Map.empty JUndefined"
  by (simp add: toDocument_def)

lemma drop_reserved_upstashMetadata:
  "(upstashMetadata d)(''_pageContentLC'' := None) = (doc_metadata d)(''_pageContentLC'' := None)"
  by (rule ext) (simp add: upstashMetadata_other)

section \<open>Properties of the steps of \<^verbatim>\<open>addVectors\<close>\<close>

lemma upstashVector_defined:
  "index < length documents \<Longrightarrow>
   upstashVector documents ids vector index =
     Inr \<lparr>vec_id = at_index ids index, vec_vector = vector,
          vec_metadata = upstashMetadata (documents ! index)\<rparr>"
  by (simp add: upstashVector_def at_index_def)

lemma upstashVector_undefined:
  "length documents \<le> index \<Longrightarrow>
   upstashVector documents ids vector index = Inl TypeError"
  by (simp add: upstashVector_def at_index_def)

lemma mapIndexed_ok:
  "i + length vs \<le> length docs \<Longrightarrow>
   \<exists>uvs. mapIndexed (upstashVector docs ids) i vs = (Inr uvs :: 'e error + _) \<and> length uvs = length vs"
proof (induction vs arbitrary: i)
  case Nil
  show ?case by simp
next
  case (Cons v vs)
  from Cons.prems have "Suc i + length vs \<le> length docs" by simp
  from Cons.IH [OF this] obtain uvs where
    "mapIndexed (upstashVector docs ids) (Suc i) vs = (Inr uvs :: 'e error + _)"
    "length uvs = length vs" by blast
  moreover from Cons.prems have "i < length docs" by simp
  ultimately show ?case by (simp add: upstashVector_defined)
qed

lemma mapIndexed_err:
  "i \<le> length docs \<Longrightarrow> length docs < i + length vs \<Longrightarrow>
   mapIndexed (upstashVector docs ids) i vs = (Inl TypeError :: 'e error + _)"
proof (induction vs arbitrary: i)
  case Nil
  then show ?case by simp
next
  case (Cons v vs)
  show ?case
  proof (cases "i < length docs")
    case True
    with Cons.prems have "Suc i \<le> length docs" "length docs < Suc i + length vs" by simp_all
    from Cons.IH [OF this] True show ?thesis
      by (simp add: upstashVector_defined)
  next
    case False
    then show ?thesis by (simp add: upstashVector_undefined)
  qed
qed

lemma Promise_all_resolves:
  "(\<And>p. p \<in> set ps \<Longrightarrow> p = None) \<Longrightarrow> Promise_all ps = Inr ()"
  by (induction ps rule: Promise_all.induct) auto

lemma Promise_all_rejects:
  "Some e \<in> set ps \<Longrightarrow> \<exists>e'. Promise_all ps = Inl (UpstreamFailure e') \<and> Some e' \<in> set ps"
  by (induction ps rule: Promise_all.induct) auto

lemma Promise_all_cases:
  "Promise_all ps = Inr () \<or> (\<exists>e. Promise_all ps = Inl (UpstreamFailure e) \<and> Some e \<in> set ps)"
  by (induction ps rule: Promise_all.induct) auto

lemma all_submissions_resolve:
  assumes "\<And>i. i < n \<Longrightarrow> upsert i = None"
  shows "Promise_all (map upsert [0..<n]) = Inr ()"
  using assms by (intro Promise_all_resolves) auto

lemma some_submission_rejects:
  assumes "i < n" and "upsert i = Some e"
  shows "\<exists>e' j. Promise_all (map upsert [0..<n]) = Inl (UpstreamFailure e') \<and>
           j < n \<and> upsert j = Some e'"
proof -
  from assms have "Some e \<in> set (map upsert [0..<n])"
    by (metis atLeastLessThan_iff image_eqI list.set_map set_upt zero_le)
  from Promise_all_rejects [OF this] obtain e' where
    e': "Promise_all (map upsert [0..<n]) = Inl (UpstreamFailure e')"
        "Some e' \<in> set (map upsert [0..<n])"
    by blast
  from e'(2) obtain j where "j < n" "upsert j = Some e'" by auto
  with e'(1) show ?thesis by blast
qed

lemma chunkArray_Nil: "chunkArray [] n = []"
  by (simp add: chunkArray.simps)

lemma chunkArray_Cons:
  "0 < n \<Longrightarrow> chunkArray (x # xs) n = take n (x # xs) # chunkArray (drop n (x # xs)) n"
  by (subst chunkArray.simps) simp

lemma concat_chunkArray: "0 < n \<Longrightarrow> concat (chunkArray xs n) = xs"
proof (induction xs n rule: chunkArray.induct)
  case (1 arr chunkSize)
  show ?case
  proof (cases "arr = []")
    case True
    then show ?thesis by (simp add: chunkArray_Nil)
  next
    case False
    with 1 have "concat (chunkArray (drop chunkSize arr) chunkSize) = drop chunkSize arr"
      by simp
    with False "1.prems" show ?thesis
      by (subst chunkArray.simps) simp
  qed
qed

lemma addVectorsWith_TypeError:
  "length documents < length vectors \<Longrightarrow>
   addVectorsWith limit uuid_v4 upsert vectors documents ids = (Inl TypeError, [])"
  by (simp add: addVectorsWith_def mapIndexed_err)

lemma addVectorsWith_dispatch:
  assumes "length vectors \<le> length documents"
  shows "\<exists>uvs. mapIndexed (upstashVector documents (documentIds uuid_v4 vectors ids)) 0 vectors
             = (Inr uvs :: 'e error + _) \<and>
           length uvs = length vectors \<and>
           addVectorsWith limit uuid_v4 upsert vectors documents ids =
             (case Promise_all (map upsert [0..<length (chunkArray uvs limit)]) of
                Inl err \<Rightarrow> Inl (err :: 'e error)
              | Inr _ \<Rightarrow> Inr (documentIds uuid_v4 vectors ids),
              map Upsert (chunkArray uvs limit))"
proof -
  from assms have "0 + length vectors \<le> length documents" by simp
  from mapIndexed_ok [OF this] obtain uvs where
    uvs: "mapIndexed (upstashVector documents (documentIds uuid_v4 vectors ids)) 0 vectors
            = (Inr uvs :: 'e error + _)" "length uvs = length vectors"
    by blast
  then show ?thesis by (simp add: addVectorsWith_def Let_def)
qed

lemma length_documentIds:
  "ids = None \<or> (\<exists>xs. ids = Some xs \<and> length xs = length vectors) \<Longrightarrow>
   length (documentIds uuid_v4 vectors ids) = length vectors"
  by (auto simp: documentIds_def)

lemma CONCURRENT_UPSERT_LIMIT_pos: "0 < CONCURRENT_UPSERT_LIMIT"
  by (simp add: CONCURRENT_UPSERT_LIMIT_def)

text \<open>The equations that evaluate \<^verbatim>\<open>addVectors\<close> on given arrays.\<close>

lemmas addVectors_eval =
  addVectors_def addVectorsWith_def documentIds_def upstashVector_defined
  upstashVector_undefined chunkArray_Cons chunkArray_Nil CONCURRENT_UPSERT_LIMIT_def

section \<open>Properties of the similarity search\<close>

lemma mapIndexed_Inr:
  "length ys = length xs \<Longrightarrow>
   (\<And>j. j < length xs \<Longrightarrow> f (xs ! j) (index + j) = Inr (ys ! j)) \<Longrightarrow>
   mapIndexed f index xs = Inr ys"
proof (induction xs arbitrary: index ys)
  case Nil
  then show ?case by simp
next
  case (Cons x xs)
  from Cons.prems(1) obtain y ys' where ys: "ys = y # ys'" "length ys' = length xs"
    by (cases ys) auto
  from Cons.prems(2) [of 0] ys have head: "f x index = Inr y" by simp
  have "f (xs ! j) (Suc index + j) = Inr (ys' ! j)" if "j < length xs" for j
    using Cons.prems(2) [of "Suc j"] that ys by simp
  with ys(2) have "mapIndexed f (Suc index) xs = Inr ys'"
    by (intro Cons.IH)
  with head ys show ?case by simp
qed


lemma similaritySearch_result:
  assumes "query \<lparr>req_vector = q, req_topK = k, req_includeMetadata = True,
                  req_filter = filter_expr, req_includeVectors = None\<rparr> = Inr results"
    and "map (\<lambda>res. toDocument newDocument (res_metadata res)) results = map Inr docs"
  shows "fst (similaritySearchVectorWithScore newDocument query q k filter_expr) =
           Inr (zip docs (map res_score results))"
proof -
  from arg_cong [OF assms(2), of length] have len: "length docs = length results"
    by simp
  have each: "toDocument newDocument (res_metadata (results ! j)) = Inr (docs ! j)"
    if "j < length results" for j
  proof -
    from that len have "map (\<lambda>res. toDocument newDocument (res_metadata res)) results ! j =
        map Inr docs ! j"
      by (simp add: assms(2))
    with that len show ?thesis by simp
  qed
  have "mapIndexed (\<lambda>res index. searchResult newDocument res) 0 results =
      Inr (zip docs (map res_score results))"
  proof (rule mapIndexed_Inr)
    show "length (zip docs (map res_score results)) = length results"
      using len by simp
    fix j assume "j < length results"
    with each [of j] len
    show "searchResult newDocument (results ! j) = Inr (zip docs (map res_score results) ! j)"
      by (simp add: searchResult_def)
  qed
  with assms(1) show ?thesis
    by (simp add: similaritySearchVectorWithScore_def runUpstashQuery_def Let_def)
qed

section \<open>The claims about the metadata codec\<close>

text \<open>
  C1, as the code has it. Where the caller's metadata holds the reserved key
  \<^verbatim>\<open>_pageContentLC\<close> with value \<open>v\<close>, the encoding of \<^verbatim>\<open>addVectors\<close> maps the reserved
  key to \<open>v\<close>, not to the document's text: the spread of the metadata comes after the
  text in the object literal. Decoding hands \<open>v\<close>, and the caller's metadata without the
  reserved key, to the constructor of \<^verbatim>\<open>Document\<close>, so the text of the decoded document
  is what the constructor makes of \<open>v\<close>. The document's own text is lost: the encoding is
  the same whatever the text \<open>t\<close> is.
\<close>

theorem reserved_key_metadata_wins:
  assumes present: "doc_metadata d ''_pageContentLC'' = Some v"
  shows "upstashMetadata d ''_pageContentLC'' = Some v \<and>
     toDocument newDocument (Some (upstashMetadata d)) =
       newDocument ((doc_metadata d)(''_pageContentLC'' := None)) v \<and>
     upstashMetadata (d\<lparr>pageContent := t\<rparr>) = upstashMetadata d"
proof -
  have enc: "upstashMetadata d ''_pageContentLC'' = Some v"
    by (rule upstashMetadata_reserved_present [OF present])
  have dec: "toDocument newDocument (Some (upstashMetadata d)) =
       newDocument ((doc_metadata d)(''_pageContentLC'' := None)) v"
    by (simp add: toDocument_Some enc drop_reserved_upstashMetadata)
  have "upstashMetadata (d\<lparr>pageContent := t\<rparr>) k = upstashMetadata d k" for k
  proof (cases "k = ''_pageContentLC''")
    case True
    with present show ?thesis by (simp add: upstashMetadata_reserved_present)
  next
    case False
    then show ?thesis by (simp add: upstashMetadata_other)
  qed
  then have lost: "upstashMetadata (d\<lparr>pageContent := t\<rparr>) = upstashMetadata d"
    by (rule ext)
  from enc dec lost show ?thesis by simp
qed

text \<open>
  The colliding value here is the number 5, and the constructor one that stores the
  string of it.
\<close>

theorem reserved_key_metadata_wins_witness:
  "doc_metadata \<lparr>pageContent = JStr ''cat'',
                 doc_metadata = [''_pageContentLC'' \<mapsto> JNum (5 :: int)]\<rparr> ''_pageContentLC''
     = Some (JNum 5) \<and>
   upstashMetadata \<lparr>pageContent = JStr ''cat'',
                    doc_metadata = [''_pageContentLC'' \<mapsto> JNum (5 :: int)]\<rparr> ''_pageContentLC''
     = Some (JNum 5) \<and>
   toDocument (\<lambda>metadata content.
        (Inr \<lparr>pageContent = (if content = JNum 5 then JStr ''5'' else content),
              doc_metadata = metadata\<rparr> :: unit error + int Document))
      (Some (upstashMetadata \<lparr>pageContent = JStr ''cat'',
                              doc_metadata = [''_pageContentLC'' \<mapsto> JNum 5]\<rparr>))
     = Inr \<lparr>pageContent = JStr ''5'', doc_metadata = Map.empty\<rparr>"
  using reserved_key_metadata_wins
    [of "\<lparr>pageContent = JStr ''cat'', doc_metadata = [''_pageContentLC'' \<mapsto> JNum (5 :: int)]\<rparr>"
        "JNum 5"
        "\<lambda>metadata content.
          (Inr \<lparr>pageContent = (if content = JNum 5 then JStr ''5'' else content),
                doc_metadata = metadata\<rparr> :: unit error + int Document)"]
  by simp

text \<open>
  C1 as it is stated fails on the document with text \<^verbatim>\<open>cat\<close> and metadata
  \<^verbatim>\<open>{ _pageContentLC: "dog" }\<close>: the reserved key is encoded as \<^verbatim>\<open>dog\<close>, which is not the
  text of the document, and with a constructor that stores a string as it is the decoded
  document's text is \<^verbatim>\<open>dog\<close>.
\<close>

theorem reserved_key_text_wins_counterexample:
  "''_pageContentLC'' \<in> dom (doc_metadata \<lparr>pageContent = JStr ''cat'', doc_metadata = [''_pageContentLC'' \<mapsto> JStr ''dog'']\<rparr>) \<and>
   upstashMetadata \<lparr>pageContent = JStr ''cat'', doc_metadata = [''_pageContentLC'' \<mapsto> JStr ''dog'']\<rparr> ''_pageContentLC''
     = Some (JStr ''dog'' :: int jsval) \<and>
   upstashMetadata \<lparr>pageContent = JStr ''cat'', doc_metadata = [''_pageContentLC'' \<mapsto> JStr ''dog'']\<rparr> ''_pageContentLC''
     \<noteq> Some (pageContent \<lparr>pageContent = JStr ''cat'', doc_metadata = [''_pageContentLC'' \<mapsto> (JStr ''dog'' :: int jsval)]\<rparr>) \<and>
   toDocument (\<lambda>metadata content.
        (Inr \<lparr>pageContent = content, doc_metadata = metadata\<rparr> :: unit error + int Document))
      (Some (upstashMetadata
         \<lparr>pageContent = JStr ''cat'', doc_metadata = [''_pageContentLC'' \<mapsto> JStr ''dog'']\<rparr>))
     = Inr \<lparr>pageContent = JStr ''dog'', doc_metadata = Map.empty\<rparr>"
  by (simp add: upstashMetadata_def toDocument_def)

text \<open>
  C2, as the code has it. For a document \<open>d\<close> whose metadata does not hold the reserved
  key \<^verbatim>\<open>_pageContentLC\<close>, decoding (as \<^verbatim>\<open>similaritySearchVectorWithScore\<close> does) the
  encoding (as \<^verbatim>\<open>addVectors\<close> makes it) hands the text and the metadata of \<open>d\<close>, as they
  are, to the constructor of \<^verbatim>\<open>Document\<close>. The round trip gives \<open>d\<close> back, the same text
  and the same value under every metadata key, whenever the constructor builds \<open>d\<close> from
  the fields of \<open>d\<close>.
\<close>

theorem upstash_codec_roundtrip:
  assumes "''_pageContentLC'' \<notin> dom (doc_metadata d)"
  shows "toDocument newDocument (Some (upstashMetadata d)) =
           newDocument (doc_metadata d) (pageContent d) \<and>
         (newDocument (doc_metadata d) (pageContent d) = Inr d \<longrightarrow>
            toDocument newDocument (Some (upstashMetadata d)) = Inr d)"
proof -
  from assms have none: "doc_metadata d ''_pageContentLC'' = None"
    by (simp add: domIff)
  then have "(doc_metadata d)(''_pageContentLC'' := None) = doc_metadata d"
    by (simp add: fun_upd_idem)
  then have "toDocument newDocument (Some (upstashMetadata d)) =
      newDocument (doc_metadata d) (pageContent d)"
    by (simp add: toDocument_Some upstashMetadata_reserved_absent [OF none]
        drop_reserved_upstashMetadata)
  then show ?thesis by simp
qed

theorem upstash_codec_roundtrip_witness:
  "''_pageContentLC'' \<notin> dom (doc_metadata \<lparr>pageContent = JStr ''cat'', doc_metadata = [''source'' \<mapsto> JNum (1::int)]\<rparr>) \<and>
   toDocument (\<lambda>metadata content.
        (Inr \<lparr>pageContent = (if content = JStr [] then JUndefined else content),
              doc_metadata = metadata\<rparr> :: unit error + int Document))
      (Some (upstashMetadata \<lparr>pageContent = JStr ''cat'', doc_metadata = [''source'' \<mapsto> JNum (1::int)]\<rparr>))
     = Inr \<lparr>pageContent = JStr ''cat'', doc_metadata = [''source'' \<mapsto> JNum (1::int)]\<rparr>"
  using upstash_codec_roundtrip
    [of "\<lparr>pageContent = JStr ''cat'', doc_metadata = [''source'' \<mapsto> JNum (1::int)]\<rparr>"
        "\<lambda>metadata content.
          (Inr \<lparr>pageContent = (if content = JStr [] then JUndefined else content),
                doc_metadata = metadata\<rparr> :: unit error + int Document)"]
  by simp

text \<open>
  C2 as it is stated fails with a constructor that keeps the class default
  \<^verbatim>\<open>undefined\<close> for a falsy text (\<^verbatim>\<open>fields.pageContent ? ... : this.pageContent\<close>): the
  document with the empty text and metadata \<^verbatim>\<open>{ source: 1 }\<close> comes back with an
  \<^verbatim>\<open>undefined\<close> text.
\<close>

theorem upstash_codec_roundtrip_counterexample:
  "''_pageContentLC'' \<notin> dom (doc_metadata \<lparr>pageContent = JStr [], doc_metadata = [''source'' \<mapsto> JNum (1::int)]\<rparr>) \<and>
   toDocument (\<lambda>metadata content.
        (Inr \<lparr>pageContent = (if content = JStr [] then JUndefined else content),
              doc_metadata = metadata\<rparr> :: unit error + int Document))
      (Some (upstashMetadata \<lparr>pageContent = JStr [], doc_metadata = [''source'' \<mapsto> JNum (1::int)]\<rparr>))
     = Inr \<lparr>pageContent = JUndefined, doc_metadata = [''source'' \<mapsto> JNum (1::int)]\<rparr> \<and>
   toDocument (\<lambda>metadata content.
        (Inr \<lparr>pageContent = (if content = JStr [] then JUndefined else content),
              doc_metadata = metadata\<rparr> :: unit error + int Document))
      (Some (upstashMetadata \<lparr>pageContent = JStr [], doc_metadata = [''source'' \<mapsto> JNum (1::int)]\<rparr>))
     \<noteq> Inr \<lparr>pageContent = JStr [], doc_metadata = [''source'' \<mapsto> JNum (1::int)]\<rparr>"
  by (simp add: toDocument_Some upstashMetadata_def map_add_def fun_eq_iff)

section \<open>The claim about the Redis byte store\<close>

text \<open>
  C9. For every store, with a namespace or without, and every key \<open>k\<close>, removing the
  prefix from the prefixed key gives \<open>k\<close> back:
  \<^verbatim>\<open>_getDeprefixedKey(_getPrefixedKey(k)) == k\<close>.
\<close>

theorem deprefix_prefixed_key:
  "getDeprefixedKey this (getPrefixedKey this k) = k"
  by (simp add: getDeprefixedKey_def getPrefixedKey_def split: option.splits)

theorem deprefix_prefixed_key_witness:
  "getPrefixedKey \<lparr>ttl = None, namespace = Some ''ns'', yieldKeysScanBatchSize = 1000\<rparr> ''a/b'' = ''ns/a/b'' \<and>
   getDeprefixedKey \<lparr>ttl = None, namespace = Some ''ns'', yieldKeysScanBatchSize = 1000\<rparr> ''ns/a/b'' = ''a/b''"
  using deprefix_prefixed_key
    [of "\<lparr>ttl = None, namespace = Some ''ns'', yieldKeysScanBatchSize = 1000\<rparr>" "''a/b''"]
  by (simp add: getPrefixedKey_def)

section \<open>The claims about the similarity search\<close>



text \<open>
  C8, as the code has it. A hit whose \<^verbatim>\<open>metadata\<close> is absent does not make the adapter's
  own code fail: it hands no metadata and an \<^verbatim>\<open>undefined\<close> \<^verbatim>\<open>pageContent\<close> to the
  constructor of \<^verbatim>\<open>Document\<close>. When the constructor accepts the hits of the answer, the
  result is a list as long as the answer, and at the place of that hit stands the
  document that the constructor builds from these two, with the hit's score. What that
  document holds as its text is the constructor's choice.
\<close>

theorem missing_metadata_decodes:
  assumes answered: "query \<lparr>req_vector = q, req_topK = k, req_includeMetadata = True,
                  req_filter = filter_expr, req_includeVectors = None\<rparr> = Inr results"
    and accepted: "map (\<lambda>res. toDocument newDocument (res_metadata res)) results = map Inr docs"
    and i: "i < length results"
    and missing: "res_metadata (results ! i) = None"
  shows "fst (similaritySearchVectorWithScore newDocument query q k filter_expr) =
           Inr (zip docs (map res_score results)) \<and>
         length (zip docs (map res_score results)) = length results \<and>
         zip docs (map res_score results) ! i = (docs ! i, res_score (results ! i)) \<and>
         newDocument Map.empty JUndefined = Inr (docs ! i)"
proof -
  from arg_cong [OF accepted, of length] have len: "length docs = length results"
    by simp
  from answered accepted
  have res: "fst (similaritySearchVectorWithScore newDocument query q k filter_expr) =
      Inr (zip docs (map res_score results))"
    by (rule similaritySearch_result)
  from i len have "map (\<lambda>res. toDocument newDocument (res_metadata res)) results ! i =
      map Inr docs ! i"
    by (simp add: accepted)
  with i len missing have "newDocument Map.empty JUndefined = Inr (docs ! i)"
    by (simp add: toDocument_None)
  with res i len show ?thesis by simp
qed

theorem missing_metadata_decodes_witness:
  "fst (similaritySearchVectorWithScore
         (\<lambda>metadata content.
            (Inr \<lparr>pageContent = content, doc_metadata = metadata\<rparr> :: unit error + int Document))
         (\<lambda>req. Inr [\<lparr>res_id = ''a'', res_score = 7, res_metadata = None\<rparr>])
         [1, 0] 1 None)
    = Inr [(\<lparr>pageContent = JUndefined, doc_metadata = Map.empty\<rparr>, 7)]"
  using missing_metadata_decodes
    [where newDocument = "\<lambda>metadata content.
            (Inr \<lparr>pageContent = content, doc_metadata = metadata\<rparr> :: unit error + int Document)"
       and query = "\<lambda>req. Inr [\<lparr>res_id = ''a'', res_score = 7, res_metadata = None\<rparr>]"
       and q = "[1, 0]" and k = 1 and filter_expr = None
       and results = "[\<lparr>res_id = ''a'', res_score = 7, res_metadata = None\<rparr>]"
       and docs = "[\<lparr>pageContent = JUndefined, doc_metadata = Map.empty\<rparr>]"
       and i = 0]
  by (simp add: toDocument_None)

text \<open>
  C8 as it is stated fails with a constructor that stores the empty string for an
  \<^verbatim>\<open>undefined\<close> text (\<^verbatim>\<open>fields.pageContent !== undefined ? ... : ""\<close>): the document
  returned for the hit has the text \<^verbatim>\<open>""\<close>, not \<^verbatim>\<open>undefined\<close>.
\<close>

theorem missing_metadata_decodes_counterexample:
  "fst (similaritySearchVectorWithScore
         (\<lambda>metadata content.
            (Inr \<lparr>pageContent = (if content = JUndefined then JStr [] else content),
                  doc_metadata = metadata\<rparr> :: unit error + int Document))
         (\<lambda>req. Inr [\<lparr>res_id = ''a'', res_score = 7, res_metadata = None\<rparr>])
         [1, 0] 1 None)
    = Inr [(\<lparr>pageContent = JStr [], doc_metadata = Map.empty\<rparr>, 7)] \<and>
   pageContent \<lparr>pageContent = JStr [], doc_metadata = (Map.empty :: int UpstashMetadata)\<rparr>
     \<noteq> JUndefined"
  by (simp add: similaritySearchVectorWithScore_def runUpstashQuery_def searchResult_def
      toDocument_None)

section \<open>The claim about the Postgres chat message history\<close>

text \<open>
  C10. The constructor of \<^verbatim>\<open>PostgresChatMessageHistory\<close> throws exactly when neither a
  pool nor a pool configuration is given. When a pool is given it is the pool of the
  instance, and the pool configuration plays no part. The table name of the instance is
  the name that was given, or the default \<^verbatim>\<open>langchain_chat_histories\<close> when none was given
  (an empty name counts as none, by \<^verbatim>\<open>tableName || this.tableName\<close>); it is passed through
  \<^verbatim>\<open>pg.escapeIdentifier\<close> when \<^verbatim>\<open>escapeTableName\<close> is true and left as it is otherwise.
\<close>

theorem postgres_constructor:
  "((\<exists>e. PostgresChatMessageHistory_constructor newPool escapeIdentifier args = Inl e) \<longleftrightarrow>
      (inp_pool args = None \<and> inp_poolConfig args = None)) \<and>
   (\<forall>p. inp_pool args = Some p \<longrightarrow>
      (\<exists>h. PostgresChatMessageHistory_constructor newPool escapeIdentifier args = Inr h \<and>
           pool h = p) \<and>
      (\<forall>c. PostgresChatMessageHistory_constructor newPool escapeIdentifier
             (args\<lparr>inp_poolConfig := c\<rparr>) =
           PostgresChatMessageHistory_constructor newPool escapeIdentifier args)) \<and>
   (\<forall>h. PostgresChatMessageHistory_constructor newPool escapeIdentifier args = Inr h \<longrightarrow>
      (\<forall>t. inp_tableName args = Some t \<and> t \<noteq> [] \<longrightarrow>
         tableName h = (if inp_escapeTableName args = Some True then escapeIdentifier t else t)) \<and>
      (inp_tableName args = None \<or> inp_tableName args = Some [] \<longrightarrow>
         tableName h = (if inp_escapeTableName args = Some True
                        then escapeIdentifier ''langchain_chat_histories''
                        else ''langchain_chat_histories'')))"
  by (auto simp add: PostgresChatMessageHistory_constructor_def Let_def split: option.splits)

theorem postgres_constructor_witness:
  "PostgresChatMessageHistory_constructor (\<lambda>c. 0) (\<lambda>s. ''\"'' @ s @ ''\"'')
     \<lparr>inp_tableName = Some ''lAnGcHaIn'', inp_sessionId = ''s'', inp_poolConfig = Some (5::nat),
      inp_pool = Some (7::nat), inp_escapeTableName = Some True\<rparr>
   = Inr \<lparr>pool = 7, tableName = ''\"lAnGcHaIn\"'', sessionId = ''s'', initialized = False\<rparr> \<and>
   PostgresChatMessageHistory_constructor (\<lambda>c. 0) (\<lambda>s. ''\"'' @ s @ ''\"'')
     \<lparr>inp_tableName = None, inp_sessionId = ''s'', inp_poolConfig = (None :: nat option),
      inp_pool = (None :: nat option), inp_escapeTableName = None\<rparr>
   = Inl (Error ''PostgresChatMessageHistory requires either a pool instance or pool config'')"
  using postgres_constructor
    [of "\<lambda>c. 0" "\<lambda>s. ''\"'' @ s @ ''\"''"
        "\<lparr>inp_tableName = Some ''lAnGcHaIn'', inp_sessionId = ''s'', inp_poolConfig = Some (5::nat),
          inp_pool = Some (7::nat), inp_escapeTableName = Some True\<rparr>"]
  by (simp add: PostgresChatMessageHistory_constructor_def)

section \<open>The claim about deletion\<close>

text \<open>
  C5, as the code has it. \<^verbatim>\<open>delete\<close> validates nothing and raises no error of its own.
  When \<^verbatim>\<open>deleteAll\<close> is true it resets the index with one call, whether ids are given or
  not. Otherwise, when ids are given (an array, or a string that is not empty) it deletes
  them with one call. Otherwise it makes no call and completes. The only failure is the
  rejection of the call on the sink.
\<close>

theorem delete_modes:
  fixes params :: UpstashDeleteParams
    and reset :: "'e option"
    and delete_ids :: "ids_param \<Rightarrow> 'e option"
  defines "outcome \<equiv> (delete reset delete_ids params :: ('e error + unit) \<times> 'n request list)"
  shows "(del_deleteAll params = Some True \<longrightarrow> outcome = (settle reset, [Reset])) \<and>
   (del_deleteAll params \<noteq> Some True \<and> del_ids params = Some i \<and> truthy_ids (Some i) \<longrightarrow>
      outcome = (settle (delete_ids i), [Delete i])) \<and>
   (del_deleteAll params \<noteq> Some True \<and> \<not> truthy_ids (del_ids params) \<longrightarrow>
      outcome = (Inr (), [])) \<and>
   fst outcome \<noteq> Inl TypeError \<and>
   (reset = None \<and> (\<forall>j. delete_ids j = None) \<longrightarrow> fst outcome = Inr ())"
  unfolding outcome_def
  by (auto simp add: delete_def settle_def split: option.splits)

theorem delete_modes_witness:
  "(delete (None :: unit option) (\<lambda>i. None)
      \<lparr>del_ids = Some (IdArray [''a'']), del_deleteAll = Some True\<rparr>
      :: (unit error + unit) \<times> int request list) = (Inr (), [Reset]) \<and>
   (delete (None :: unit option) (\<lambda>i. None)
      \<lparr>del_ids = Some (IdArray [''a'']), del_deleteAll = Some False\<rparr>
      :: (unit error + unit) \<times> int request list) = (Inr (), [Delete (IdArray [''a''])])"
  using delete_modes
    [where 'n = int, of "\<lparr>del_ids = Some (IdArray [''a'']), del_deleteAll = Some True\<rparr>"
        "None :: unit option" "\<lambda>i. None" "IdArray [''a'']"]
    delete_modes
    [where 'n = int, of "\<lparr>del_ids = Some (IdArray [''a'']), del_deleteAll = Some False\<rparr>"
        "None :: unit option" "\<lambda>i. None" "IdArray [''a'']"]
  by (simp add: settle_def)

text \<open>
  C5 as it is stated fails. A request with both ids and \<^verbatim>\<open>deleteAll: true\<close> is not
  rejected: the index is reset and the call completes. A request with neither is not
  rejected either: it completes with no call made.
\<close>

theorem delete_validation_counterexample:
  "(delete (None :: unit option) (\<lambda>i. None)
      \<lparr>del_ids = Some (IdArray [''a'']), del_deleteAll = Some True\<rparr>
      :: (unit error + unit) \<times> int request list) = (Inr (), [Reset]) \<and>
   (delete (None :: unit option) (\<lambda>i. None)
      \<lparr>del_ids = None, del_deleteAll = None\<rparr>
      :: (unit error + unit) \<times> int request list) = (Inr (), [])"
  by (simp add: delete_def settle_def)

section \<open>The claims about \<^verbatim>\<open>addVectors\<close>\<close>

text \<open>
  C3. Given as many documents as vectors, and either no ids or as many ids as vectors,
  \<^verbatim>\<open>addVectors\<close> returns, when every submission it makes succeeds, exactly one id per
  vector in input order: the caller's ids as they came, or else the generated ids in the
  order \<^verbatim>\<open>uuid.v4()\<close> produced them. This holds for every chunk size \<open>limit\<close>
  (\<^verbatim>\<open>addVectors\<close> is the case \<^verbatim>\<open>CONCURRENT_UPSERT_LIMIT\<close>), so the chunking does not show in
  the result. With no vector at all the result is the empty list and no call is made on
  the index.
\<close>

theorem addVectors_returns_ids_in_order:
  fixes upsert :: "nat \<Rightarrow> 'e option" and vectors :: "'n list list"
  assumes lens: "length documents = length vectors"
    and ids: "ids = None \<or> (\<exists>xs. ids = Some xs \<and> length xs = length vectors)"
    and ok: "\<And>i. i < length (snd (addVectorsWith limit uuid upsert vectors documents ids)) \<Longrightarrow>
               upsert i = None"
  shows "fst (addVectorsWith limit uuid upsert vectors documents ids) =
           Inr (case ids of Some xs \<Rightarrow> xs | None \<Rightarrow> map uuid [0..<length vectors]) \<and>
         length (case ids of Some xs \<Rightarrow> xs | None \<Rightarrow> map uuid [0..<length vectors]) =
           length vectors \<and>
         (vectors = [] \<longrightarrow>
            addVectorsWith limit uuid upsert vectors documents ids = (Inr [], []))"
proof -
  from lens have "length vectors \<le> length documents" by simp
  from addVectorsWith_dispatch [OF this, of uuid ids limit upsert]
  obtain uvs where
    len: "length uvs = length vectors"
    and run: "addVectorsWith limit uuid upsert vectors documents ids =
             (case Promise_all (map upsert [0..<length (chunkArray uvs limit)]) of
                Inl err \<Rightarrow> Inl err
              | Inr _ \<Rightarrow> Inr (documentIds uuid vectors ids),
              map Upsert (chunkArray uvs limit))"
    by blast
  have calls: "snd (addVectorsWith limit uuid upsert vectors documents ids) =
      map Upsert (chunkArray uvs limit)"
    by (simp add: run)
  have "upsert i = None" if "i < length (chunkArray uvs limit)" for i
    using ok [of i] that by (simp add: calls)
  then have "Promise_all (map upsert [0..<length (chunkArray uvs limit)]) = Inr ()"
    by (rule all_submissions_resolve)
  then have res: "fst (addVectorsWith limit uuid upsert vectors documents ids) =
      Inr (documentIds uuid vectors ids)"
    by (simp add: run)
  have n: "length (documentIds uuid vectors ids) = length vectors"
    using ids by (rule length_documentIds)
  have "addVectorsWith limit uuid upsert vectors documents ids = (Inr [], [])"
    if "vectors = []"
  proof -
    from that len have "uvs = []" by simp
    moreover from that n have "documentIds uuid vectors ids = []" by simp
    ultimately show ?thesis using res calls by (simp add: prod_eq_iff chunkArray_Nil)
  qed
  with res n show ?thesis by (simp add: documentIds_def)
qed

theorem addVectors_returns_ids_in_order_witness:
  "fst (addVectors (\<lambda>i. replicate (Suc i) CHR ''u'') (\<lambda>i. (None :: unit option))
          [[1, 0], [0, 1 :: int]]
          [\<lparr>pageContent = JStr ''cat'', doc_metadata = Map.empty\<rparr>,
           \<lparr>pageContent = JStr ''dog'', doc_metadata = Map.empty\<rparr>]
          None) = Inr [''u'', ''uu''] \<and>
   addVectorsWith 1 (\<lambda>i. replicate (Suc i) CHR ''u'') (\<lambda>i. (None :: unit option))
          ([] :: int list list) [] None = (Inr [], [])"
  using addVectors_returns_ids_in_order
    [where documents = "[\<lparr>pageContent = JStr ''cat'', doc_metadata = Map.empty\<rparr>,
          \<lparr>pageContent = JStr ''dog'', doc_metadata = Map.empty\<rparr>]"
       and vectors = "[[1, 0], [0, 1 :: int]]" and ids = None
       and limit = CONCURRENT_UPSERT_LIMIT
       and uuid = "\<lambda>i. replicate (Suc i) CHR ''u''"
       and upsert = "\<lambda>i. (None :: unit option)"]
    addVectors_returns_ids_in_order
    [where documents = "[] :: int Document list" and vectors = "[]" and ids = None
       and limit = 1
       and uuid = "\<lambda>i. replicate (Suc i) CHR ''u''"
       and upsert = "\<lambda>i. (None :: unit option)"]
  by (simp add: addVectors_def upt_rec [of 0] upt_rec [of 1] upt_rec [of 2])

text \<open>
  C6. When one of the submissions that \<^verbatim>\<open>addVectors\<close> makes is rejected, whatever the
  number of chunks, the operation fails as a whole: the result is never a list of ids, it
  is the rejection \<open>e'\<close> of one of the submissions that were rejected. Every chunk has all
  the same been submitted once and only once, in order, and nothing else was called on the
  index: the calls are those of a run in which nothing fails, so no chunk is retried and
  none is rolled back.
\<close>

theorem addVectors_fails_as_a_whole:
  fixes upsert :: "nat \<Rightarrow> 'e option" and vectors :: "'n list list"
  assumes issued: "i < length (snd (addVectorsWith limit uuid upsert vectors documents ids))"
    and fails: "upsert i = Some e"
  shows "(case fst (addVectorsWith limit uuid upsert vectors documents ids) of
            Inr returned \<Rightarrow> False
          | Inl TypeError \<Rightarrow> False
          | Inl (UpstreamFailure e') \<Rightarrow>
              (\<exists>j. j < length (snd (addVectorsWith limit uuid upsert vectors documents ids)) \<and>
                   upsert j = Some e')) \<and>
         (\<exists>uvs. mapIndexed (upstashVector documents (documentIds uuid vectors ids)) 0 vectors
                   = (Inr uvs :: 'e error + _) \<and>
                 snd (addVectorsWith limit uuid upsert vectors documents ids) =
                   map Upsert (chunkArray uvs limit)) \<and>
         snd (addVectorsWith limit uuid upsert vectors documents ids) =
           snd (addVectorsWith limit uuid (\<lambda>i. (None :: 'e option)) vectors documents ids)"
proof (cases "length vectors \<le> length documents")
  case False
  then have "addVectorsWith limit uuid upsert vectors documents ids = (Inl TypeError, [])"
    by (simp add: addVectorsWith_TypeError)
  with issued show ?thesis by simp
next
  case True
  from addVectorsWith_dispatch [OF True, of uuid ids limit upsert]
  obtain uvs where
    uvs: "mapIndexed (upstashVector documents (documentIds uuid vectors ids)) 0 vectors
            = (Inr uvs :: 'e error + _)"
    and run: "addVectorsWith limit uuid upsert vectors documents ids =
             (case Promise_all (map upsert [0..<length (chunkArray uvs limit)]) of
                Inl err \<Rightarrow> Inl err
              | Inr _ \<Rightarrow> Inr (documentIds uuid vectors ids),
              map Upsert (chunkArray uvs limit))"
    by blast
  have calls: "snd (addVectorsWith limit uuid upsert vectors documents ids) =
      map Upsert (chunkArray uvs limit)"
    by (simp add: run)
  have quiet: "snd (addVectorsWith limit uuid (\<lambda>i. (None :: 'e option)) vectors documents ids) =
      map Upsert (chunkArray uvs limit)"
    using uvs by (simp add: addVectorsWith_def Let_def)
  from issued have i: "i < length (chunkArray uvs limit)"
    by (simp add: calls)
  from some_submission_rejects [of i "length (chunkArray uvs limit)" upsert e, OF i fails]
  obtain e' j where
    rej: "Promise_all (map upsert [0..<length (chunkArray uvs limit)]) = Inl (UpstreamFailure e')"
    and j: "j < length (chunkArray uvs limit)" "upsert j = Some e'"
    by blast
  have res: "fst (addVectorsWith limit uuid upsert vectors documents ids) =
      Inl (UpstreamFailure e')"
    by (simp add: run rej)
  have ex: "\<exists>j. j < length (snd (addVectorsWith limit uuid upsert vectors documents ids)) \<and>
      upsert j = Some e'"
    using j by (auto simp: calls)
  have A: "case fst (addVectorsWith limit uuid upsert vectors documents ids) of
            Inr returned \<Rightarrow> False
          | Inl TypeError \<Rightarrow> False
          | Inl (UpstreamFailure e') \<Rightarrow>
              (\<exists>j. j < length (snd (addVectorsWith limit uuid upsert vectors documents ids)) \<and>
                   upsert j = Some e')"
    unfolding res using ex by simp
  have B: "\<exists>uvs. mapIndexed (upstashVector documents (documentIds uuid vectors ids)) 0 vectors
                   = (Inr uvs :: 'e error + _) \<and>
                 snd (addVectorsWith limit uuid upsert vectors documents ids) =
                   map Upsert (chunkArray uvs limit)"
    using uvs calls by blast
  have C: "snd (addVectorsWith limit uuid upsert vectors documents ids) =
           snd (addVectorsWith limit uuid (\<lambda>i. (None :: 'e option)) vectors documents ids)"
    unfolding calls quiet by (rule refl)
  from A B C show ?thesis by (intro conjI)
qed

theorem addVectors_fails_as_a_whole_witness:
  "1 < length (snd (addVectorsWith 2 (\<lambda>i. replicate (Suc i) CHR ''u'')
          (\<lambda>i. if i = 1 then Some ''boom'' else None)
          [[1], [2], [3 :: int]]
          [\<lparr>pageContent = JStr ''a'', doc_metadata = Map.empty\<rparr>,
           \<lparr>pageContent = JStr ''b'', doc_metadata = Map.empty\<rparr>,
           \<lparr>pageContent = JStr ''c'', doc_metadata = Map.empty\<rparr>]
          None)) \<and>
   fst (addVectorsWith 2 (\<lambda>i. replicate (Suc i) CHR ''u'')
          (\<lambda>i. if i = 1 then Some ''boom'' else None)
          [[1], [2], [3 :: int]]
          [\<lparr>pageContent = JStr ''a'', doc_metadata = Map.empty\<rparr>,
           \<lparr>pageContent = JStr ''b'', doc_metadata = Map.empty\<rparr>,
           \<lparr>pageContent = JStr ''c'', doc_metadata = Map.empty\<rparr>]
          None) = Inl (UpstreamFailure ''boom'')"
proof -
  let ?R = "addVectorsWith 2 (\<lambda>i. replicate (Suc i) CHR ''u'')
          (\<lambda>i. if i = 1 then Some ''boom'' else None)
          [[1], [2], [3 :: int]]
          [\<lparr>pageContent = JStr ''a'', doc_metadata = Map.empty\<rparr>,
           \<lparr>pageContent = JStr ''b'', doc_metadata = Map.empty\<rparr>,
           \<lparr>pageContent = JStr ''c'', doc_metadata = Map.empty\<rparr>]
          None"
  have issued: "1 < length (snd ?R)"
    by (simp add: addVectors_eval)
  have fails: "(\<lambda>i. if i = 1 then Some ''boom'' else None) (1::nat) = Some ''boom''"
    by simp
  from addVectors_fails_as_a_whole [OF issued fails]
  have "case fst ?R of
          Inr returned \<Rightarrow> False
        | Inl TypeError \<Rightarrow> False
        | Inl (UpstreamFailure e') \<Rightarrow>
            (\<exists>j. j < length (snd ?R) \<and> (if j = 1 then Some ''boom'' else None) = Some e')"
    by (rule conjunct1)
  then have "fst ?R = Inl (UpstreamFailure ''boom'')"
    by (auto split: sum.splits error.splits if_splits)
  with issued show ?thesis by simp
qed

text \<open>
  C7, as the code has it. \<^verbatim>\<open>addVectors\<close> does not compare the lengths of its arguments.
  With more vectors than documents it fails with a \<^verbatim>\<open>TypeError\<close> (reading
  \<^verbatim>\<open>pageContent\<close> of \<^verbatim>\<open>undefined\<close>) before any call on the index. With at most as many
  vectors as documents, and whatever the number of ids, it raises no error of its own: it
  upserts exactly one entry per vector, and when every submission succeeds it returns the
  ids as they were given or generated.
\<close>

theorem addVectors_length_mismatch:
  fixes upsert :: "nat \<Rightarrow> 'e option" and vectors :: "'n list list"
  shows "(length documents < length vectors \<longrightarrow>
            addVectors uuid upsert vectors documents ids = (Inl TypeError, [])) \<and>
         (length vectors \<le> length documents \<longrightarrow>
            fst (addVectors uuid upsert vectors documents ids) \<noteq> Inl TypeError \<and>
            (\<exists>uvs. mapIndexed (upstashVector documents (documentIds uuid vectors ids)) 0 vectors
                      = (Inr uvs :: 'e error + _) \<and>
                    length uvs = length vectors \<and>
                    concat (chunkArray uvs CONCURRENT_UPSERT_LIMIT) = uvs \<and>
                    snd (addVectors uuid upsert vectors documents ids) =
                      map Upsert (chunkArray uvs CONCURRENT_UPSERT_LIMIT)) \<and>
            ((\<forall>i. i < length (snd (addVectors uuid upsert vectors documents ids)) \<longrightarrow>
                  upsert i = None) \<longrightarrow>
               fst (addVectors uuid upsert vectors documents ids) =
                 Inr (case ids of Some xs \<Rightarrow> xs | None \<Rightarrow> map uuid [0..<length vectors])))"
proof (intro conjI impI)
  assume "length documents < length vectors"
  then show "addVectors uuid upsert vectors documents ids = (Inl TypeError, [])"
    unfolding addVectors_def by (rule addVectorsWith_TypeError)
next
  assume le: "length vectors \<le> length documents"
  from addVectorsWith_dispatch [OF le, of uuid ids CONCURRENT_UPSERT_LIMIT upsert]
  obtain uvs where
    uvs: "mapIndexed (upstashVector documents (documentIds uuid vectors ids)) 0 vectors
            = (Inr uvs :: 'e error + _)"
    and len: "length uvs = length vectors"
    and run: "addVectors uuid upsert vectors documents ids =
             (case Promise_all (map upsert [0..<length (chunkArray uvs CONCURRENT_UPSERT_LIMIT)]) of
                Inl err \<Rightarrow> Inl err
              | Inr _ \<Rightarrow> Inr (documentIds uuid vectors ids),
              map Upsert (chunkArray uvs CONCURRENT_UPSERT_LIMIT))"
    unfolding addVectors_def by blast
  have calls: "snd (addVectors uuid upsert vectors documents ids) =
      map Upsert (chunkArray uvs CONCURRENT_UPSERT_LIMIT)"
    by (simp add: run)
  show "fst (addVectors uuid upsert vectors documents ids) \<noteq> Inl TypeError"
    using Promise_all_cases [of "map upsert [0..<length (chunkArray uvs CONCURRENT_UPSERT_LIMIT)]"]
    by (auto simp: run)
  show "\<exists>uvs. mapIndexed (upstashVector documents (documentIds uuid vectors ids)) 0 vectors
                      = (Inr uvs :: 'e error + _) \<and>
                    length uvs = length vectors \<and>
                    concat (chunkArray uvs CONCURRENT_UPSERT_LIMIT) = uvs \<and>
                    snd (addVectors uuid upsert vectors documents ids) =
                      map Upsert (chunkArray uvs CONCURRENT_UPSERT_LIMIT)"
    using uvs len calls concat_chunkArray [OF CONCURRENT_UPSERT_LIMIT_pos, of uvs] by blast
  assume ok: "\<forall>i. i < length (snd (addVectors uuid upsert vectors documents ids)) \<longrightarrow>
                  upsert i = None"
  have "upsert i = None" if "i < length (chunkArray uvs CONCURRENT_UPSERT_LIMIT)" for i
    using ok that by (simp add: calls)
  then have "Promise_all (map upsert [0..<length (chunkArray uvs CONCURRENT_UPSERT_LIMIT)]) = Inr ()"
    by (rule all_submissions_resolve)
  then show "fst (addVectors uuid upsert vectors documents ids) =
                 Inr (case ids of Some xs \<Rightarrow> xs | None \<Rightarrow> map uuid [0..<length vectors])"
    by (simp add: run documentIds_def)
qed

theorem addVectors_length_mismatch_witness:
  "addVectors (\<lambda>i. replicate (Suc i) CHR ''u'') (\<lambda>i. (None :: unit option))
      [[1], [2 :: int]]
      [\<lparr>pageContent = JStr ''a'', doc_metadata = Map.empty\<rparr>]
      None = (Inl TypeError, []) \<and>
   fst (addVectors (\<lambda>i. replicate (Suc i) CHR ''u'') (\<lambda>i. (None :: unit option))
      [[1 :: int]]
      [\<lparr>pageContent = JStr ''a'', doc_metadata = Map.empty\<rparr>,
       \<lparr>pageContent = JStr ''b'', doc_metadata = Map.empty\<rparr>]
      (Some [''x'', ''y'', ''z''])) = Inr [''x'', ''y'', ''z'']"
  using addVectors_length_mismatch
    [where documents = "[\<lparr>pageContent = JStr ''a'', doc_metadata = Map.empty\<rparr>]"
       and vectors = "[[1], [2 :: int]]" and ids = None
       and uuid = "\<lambda>i. replicate (Suc i) CHR ''u''"
       and upsert = "\<lambda>i. (None :: unit option)"]
    addVectors_length_mismatch
    [where documents = "[\<lparr>pageContent = JStr ''a'', doc_metadata = Map.empty\<rparr>,
                         \<lparr>pageContent = JStr ''b'', doc_metadata = Map.empty\<rparr>]"
       and vectors = "[[1 :: int]]" and ids = "Some [''x'', ''y'', ''z'']"
       and uuid = "\<lambda>i. replicate (Suc i) CHR ''u''"
       and upsert = "\<lambda>i. (None :: unit option)"]
  by simp

text \<open>
  C7 as it is stated fails. One vector with two documents is accepted: an id comes back
  and an upsert was issued. One vector and one document with two ids is accepted as well,
  and both ids come back.
\<close>

theorem addVectors_validation_counterexample:
  "fst (addVectors (\<lambda>i. replicate (Suc i) CHR ''u'') (\<lambda>i. (None :: unit option))
      [[1 :: int]]
      [\<lparr>pageContent = JStr ''a'', doc_metadata = Map.empty\<rparr>,
       \<lparr>pageContent = JStr ''b'', doc_metadata = Map.empty\<rparr>]
      None) = Inr [''u''] \<and>
   length (snd (addVectors (\<lambda>i. replicate (Suc i) CHR ''u'') (\<lambda>i. (None :: unit option))
      [[1 :: int]]
      [\<lparr>pageContent = JStr ''a'', doc_metadata = Map.empty\<rparr>,
       \<lparr>pageContent = JStr ''b'', doc_metadata = Map.empty\<rparr>]
      None)) = 1 \<and>
   fst (addVectors (\<lambda>i. replicate (Suc i) CHR ''u'') (\<lambda>i. (None :: unit option))
      [[1 :: int]]
      [\<lparr>pageContent = JStr ''a'', doc_metadata = Map.empty\<rparr>]
      (Some [''x'', ''y''])) = Inr [''x'', ''y''] \<and>
   length (snd (addVectors (\<lambda>i. replicate (Suc i) CHR ''u'') (\<lambda>i. (None :: unit option))
      [[1 :: int]]
      [\<lparr>pageContent = JStr ''a'', doc_metadata = Map.empty\<rparr>]
      (Some [''x'', ''y'']))) = 1"
  by (simp add: addVectors_eval)

end
